theory Spec2Isabelle
  imports Complex_Main "HOL-Library.Log_Nat"
begin

section \<open>Numbers\<close>

text \<open>
  A Python \<^verbatim>\<open>float\<close> is an IEEE 754 double: a finite value, which is a rational, an
  infinity or a NaN. The zero of either sign is the one value \<open>Fin 0\<close>: the two compare
  equal and no operation of the handlers tells them apart. A Python \<^verbatim>\<open>int\<close> is
  unbounded.
\<close>

datatype pyfloat = Fin rat | PosInf | NegInf | NaN

datatype pynum = PInt int | PFloat pyfloat

subsection \<open>Rounding to a double\<close>

text \<open>Rounding to the nearest integer, a tie to the even one.\<close>

definition round_half_even :: "rat \<Rightarrow> int" where
  "round_half_even y =
     (let f = floor y; r = y - of_int f
      in if r < 1/2 then f else if r > 1/2 then f + 1 else if even f then f else f + 1)"

text \<open>The exponent \<open>e\<close> of a positive rational: \<open>2 ^ e \<le> a < 2 ^ (e + 1)\<close>.\<close>

definition ilog2 :: "rat \<Rightarrow> int" where
  "ilog2 a = (if 1 \<le> a then bitlen (floor a) - 1 else - bitlen (ceiling (1 / a) - 1))"

definition pow2 :: "int \<Rightarrow> rat" where
  "pow2 p = (if 0 \<le> p then 2 ^ nat p else 1 / 2 ^ nat (- p))"

text \<open>
  The double nearest to a rational, a tie to the even significand. A double has 53
  significant bits, so around \<open>a\<close> doubles are \<open>2 ^ (e - 52)\<close> apart, and no closer than
  \<open>2 ^ - 1074\<close>; a result of \<open>2 ^ 1024\<close> or more is an infinity.
\<close>

definition overflow_check :: "rat \<Rightarrow> rat \<Rightarrow> pyfloat" where
  "overflow_check q v =
     (if 2 ^ 1024 \<le> v then (if q < 0 then NegInf else PosInf)
      else Fin (if q < 0 then - v else v))"

definition round_at :: "rat \<Rightarrow> int \<Rightarrow> pyfloat" where
  "round_at q p = overflow_check q (of_int (round_half_even (\<bar>q\<bar> / pow2 p)) * pow2 p)"

definition round_double :: "rat \<Rightarrow> pyfloat" where
  "round_double q = (if q = 0 then Fin 0 else round_at q (max (ilog2 \<bar>q\<bar> - 52) (- 1074)))"

subsection \<open>Float arithmetic\<close>

fun fneg :: "pyfloat \<Rightarrow> pyfloat" where
  "fneg (Fin x) = Fin (- x)"
| "fneg PosInf = NegInf"
| "fneg NegInf = PosInf"
| "fneg NaN = NaN"

fun fadd :: "pyfloat \<Rightarrow> pyfloat \<Rightarrow> pyfloat" where
  "fadd (Fin x) (Fin y) = round_double (x + y)"
| "fadd NaN b = NaN"
| "fadd a NaN = NaN"
| "fadd PosInf NegInf = NaN"
| "fadd NegInf PosInf = NaN"
| "fadd PosInf b = PosInf"
| "fadd NegInf b = NegInf"
| "fadd (Fin x) b = b"

definition fsub :: "pyfloat \<Rightarrow> pyfloat \<Rightarrow> pyfloat" where
  "fsub a b = fadd a (fneg b)"

fun fmul :: "pyfloat \<Rightarrow> pyfloat \<Rightarrow> pyfloat" where
  "fmul (Fin x) (Fin y) = round_double (x * y)"
| "fmul NaN b = NaN"
| "fmul a NaN = NaN"
| "fmul (Fin x) b = (if x = 0 then NaN else if 0 < x then b else fneg b)"
| "fmul a (Fin y) = (if y = 0 then NaN else if 0 < y then a else fneg a)"
| "fmul PosInf PosInf = PosInf"
| "fmul NegInf NegInf = PosInf"
| "fmul PosInf NegInf = NegInf"
| "fmul NegInf PosInf = NegInf"

text \<open>Division by a float that is not zero; the callers raise on zero.\<close>

fun fdiv :: "pyfloat \<Rightarrow> pyfloat \<Rightarrow> pyfloat" where
  "fdiv (Fin x) (Fin y) = round_double (x / y)"
| "fdiv NaN b = NaN"
| "fdiv a NaN = NaN"
| "fdiv (Fin x) b = Fin 0"
| "fdiv a (Fin y) = (if 0 < y then a else fneg a)"
| "fdiv PosInf b = NaN"
| "fdiv NegInf b = NaN"

text \<open>The literals \<^verbatim>\<open>0.3\<close> and \<^verbatim>\<open>0.2\<close> are the doubles nearest to them.\<close>

definition float_0_3 :: pyfloat where
  "float_0_3 = round_double (3/10)"

definition float_0_2 :: pyfloat where
  "float_0_2 = round_double (2/10)"

subsection \<open>Comparisons\<close>

text \<open>
  Every comparison with a NaN is false. An \<^verbatim>\<open>int\<close> and a \<^verbatim>\<open>float\<close> are compared by
  their exact values.
\<close>

fun fl_lt :: "pyfloat \<Rightarrow> pyfloat \<Rightarrow> bool" where
  "fl_lt (Fin x) (Fin y) = (x < y)"
| "fl_lt (Fin x) PosInf = True"
| "fl_lt NegInf (Fin y) = True"
| "fl_lt NegInf PosInf = True"
| "fl_lt a b = False"

fun fl_eq :: "pyfloat \<Rightarrow> pyfloat \<Rightarrow> bool" where
  "fl_eq (Fin x) (Fin y) = (x = y)"
| "fl_eq PosInf PosInf = True"
| "fl_eq NegInf NegInf = True"
| "fl_eq (Fin x) b = False"
| "fl_eq PosInf b = False"
| "fl_eq NegInf b = False"
| "fl_eq NaN b = False"

fun exact :: "pynum \<Rightarrow> pyfloat" where
  "exact (PInt k) = Fin (of_int k)"
| "exact (PFloat x) = x"

definition py_lt :: "pynum \<Rightarrow> pynum \<Rightarrow> bool" where
  "py_lt a b = fl_lt (exact a) (exact b)"

definition py_eq :: "pynum \<Rightarrow> pynum \<Rightarrow> bool" where
  "py_eq a b = fl_eq (exact a) (exact b)"

definition py_le :: "pynum \<Rightarrow> pynum \<Rightarrow> bool" where
  "py_le a b = (fl_lt (exact a) (exact b) \<or> fl_eq (exact a) (exact b))"

definition py_ge :: "pynum \<Rightarrow> pynum \<Rightarrow> bool" where
  "py_ge a b = py_le b a"

text \<open>
  \<^verbatim>\<open>max(a, b)\<close> keeps its first argument unless the second is greater, \<^verbatim>\<open>min(a, b)\<close>
  unless the second is smaller.
\<close>

definition py_max :: "pynum \<Rightarrow> pynum \<Rightarrow> pynum" where
  "py_max a b = (if py_lt a b then b else a)"

definition py_min :: "pynum \<Rightarrow> pynum \<Rightarrow> pynum" where
  "py_min a b = (if py_lt b a then b else a)"

section \<open>Values and exceptions\<close>

text \<open>
  The handlers of \<^verbatim>\<open>Public/app.py\<close> work on the Python object that Flask's
  \<^verbatim>\<open>request.json\<close> returns: \<^verbatim>\<open>None\<close>, a bool, a number, a string, a list or a
  dict with string keys. A string is the list of its characters. A dict is an association
  list read through \<open>map_of\<close>; a Python dict holds each key once.
\<close>

datatype json =
    JNull
  | JBool bool
  | JNum pynum
  | JStr string
  | JList "json list"
  | JDict "(string \<times> json) list"

abbreviation JInt :: "int \<Rightarrow> json" where
  "JInt k \<equiv> JNum (PInt k)"

abbreviation JFloat :: "rat \<Rightarrow> json" where
  "JFloat r \<equiv> JNum (PFloat (Fin r))"

text \<open>An exception that no handler catches; Flask answers it with HTTP 500.\<close>

datatype exn = TypeError | AttributeError | OverflowError | ZeroDivisionError

datatype response = Response (status: nat) (body: json)

text \<open>\<^verbatim>\<open>jsonify(d)\<close> answers with status 200; \<^verbatim>\<open>return jsonify(d), 400\<close> sets the status.\<close>

definition jsonify :: "(string \<times> json) list \<Rightarrow> nat \<Rightarrow> response" where
  "jsonify d code = Response code (JDict d)"

section \<open>The Python operations the handlers use\<close>

text \<open>\<^verbatim>\<open>key in d\<close> and \<^verbatim>\<open>d.get(key, default)\<close> on a dict.\<close>

definition dict_contains :: "(string \<times> json) list \<Rightarrow> string \<Rightarrow> bool" where
  "dict_contains d k = (case map_of d k of None \<Rightarrow> False | Some v \<Rightarrow> True)"

definition dict_get :: "(string \<times> json) list \<Rightarrow> string \<Rightarrow> json \<Rightarrow> json" where
  "dict_get d k dflt = (case map_of d k of None \<Rightarrow> dflt | Some v \<Rightarrow> v)"

text \<open>\<^verbatim>\<open>len(v)\<close>: defined on lists, strings and dicts, a \<^verbatim>\<open>TypeError\<close> on the rest.\<close>

fun py_len :: "json \<Rightarrow> exn + nat" where
  "py_len (JList xs) = Inr (length xs)"
| "py_len (JStr s) = Inr (length s)"
| "py_len (JDict d) = Inr (length (remdups (map fst d)))"
| "py_len v = Inl TypeError"

text \<open>
  The number a Python object is in arithmetic and in a comparison with a number:
  \<^verbatim>\<open>bool\<close> is a subclass of \<^verbatim>\<open>int\<close>; every other non-number raises \<^verbatim>\<open>TypeError\<close>.
\<close>

fun py_num :: "json \<Rightarrow> pynum option" where
  "py_num (JNum n) = Some n"
| "py_num (JBool b) = Some (PInt (if b then 1 else 0))"
| "py_num v = None"

text \<open>
  \<^verbatim>\<open>float(k)\<close> of an int, as arithmetic between an int and a float takes it: the
  nearest double, and \<^verbatim>\<open>OverflowError\<close> when the int is too large for one.
\<close>

definition to_float :: "int \<Rightarrow> exn + pyfloat" where
  "to_float k = (case round_double (of_int k) of Fin r \<Rightarrow> Inr (Fin r) | x \<Rightarrow> Inl OverflowError)"

text \<open>\<^verbatim>\<open>a + b\<close> on two numbers: exact on ints, in floats as soon as one is a float.\<close>

fun py_add :: "pynum \<Rightarrow> pynum \<Rightarrow> exn + pynum" where
  "py_add (PInt a) (PInt b) = Inr (PInt (a + b))"
| "py_add (PInt a) (PFloat y) =
     (case to_float a of Inl e \<Rightarrow> Inl e | Inr x \<Rightarrow> Inr (PFloat (fadd x y)))"
| "py_add (PFloat x) (PInt b) =
     (case to_float b of Inl e \<Rightarrow> Inl e | Inr y \<Rightarrow> Inr (PFloat (fadd x y)))"
| "py_add (PFloat x) (PFloat y) = Inr (PFloat (fadd x y))"

text \<open>
  \<^verbatim>\<open>total / n\<close> for the length \<open>n\<close> of a list. Between two ints it is the double
  nearest to the exact quotient, and \<^verbatim>\<open>OverflowError\<close> when that is too large for a
  double; a float is divided by \<^verbatim>\<open>float(n)\<close>.
\<close>

fun py_truediv :: "pynum \<Rightarrow> nat \<Rightarrow> exn + pyfloat" where
  "py_truediv (PInt a) n =
     (if n = 0 then Inl ZeroDivisionError
      else case round_double (of_int a / of_nat n) of
             Fin r \<Rightarrow> Inr (Fin r)
           | x \<Rightarrow> Inl OverflowError)"
| "py_truediv (PFloat x) n =
     (case to_float (int n) of
        Inl e \<Rightarrow> Inl e
      | Inr y \<Rightarrow> if n = 0 then Inl ZeroDivisionError else Inr (fdiv x y))"

text \<open>
  \<^verbatim>\<open>sum(v)\<close> starts from the int \<^verbatim>\<open>0\<close> and adds the items from left to right, each
  float addition rounding its result, as CPython 3.11 does. Iterating a string or a dict
  yields strings, which cannot be added to a number.
\<close>

fun sum_items :: "pynum \<Rightarrow> json list \<Rightarrow> exn + pynum" where
  "sum_items acc [] = Inr acc"
| "sum_items acc (x # xs) =
     (case py_num x of
        None \<Rightarrow> Inl TypeError
      | Some n \<Rightarrow> (case py_add acc n of Inl e \<Rightarrow> Inl e | Inr acc' \<Rightarrow> sum_items acc' xs))"

fun py_sum :: "json \<Rightarrow> exn + pynum" where
  "py_sum (JList xs) = sum_items (PInt 0) xs"
| "py_sum (JStr s) = (if s = [] then Inr (PInt 0) else Inl TypeError)"
| "py_sum (JDict d) = (if d = [] then Inr (PInt 0) else Inl TypeError)"
| "py_sum v = Inl TypeError"

text \<open>
  \<^verbatim>\<open>round(x, 1)\<close> of a finite float: to the nearest multiple of one tenth, a tie to the
  even one. The result is given by that decimal, which is what \<^verbatim>\<open>jsonify\<close> writes for
  the float \<^verbatim>\<open>round\<close> returns.
\<close>

definition py_round1 :: "rat \<Rightarrow> rat" where
  "py_round1 x =
     (let y = x * 10; f = floor y; r = y - of_int f;
          n = (if r < 1/2 then f else if r > 1/2 then f + 1 else if even f then f else f + 1)
      in of_int n / 10)"

text \<open>
  \<^verbatim>\<open>round(x, 1)\<close> of a number: an int is returned as it is, and so are an infinity and
  a NaN.
\<close>

fun py_round :: "pynum \<Rightarrow> pynum" where
  "py_round (PInt k) = PInt k"
| "py_round (PFloat (Fin r)) = PFloat (Fin (py_round1 r))"
| "py_round (PFloat x) = PFloat x"

text \<open>
  \<^verbatim>\<open>str(n)\<close> of a natural number, for the f-string of \<^verbatim>\<open>export_session\<close>.
\<close>

fun str_nat :: "nat \<Rightarrow> string" where
  "str_nat n =
     (if n < 10 then [''0123456789'' ! n]
      else str_nat (n div 10) @ [''0123456789'' ! (n mod 10)])"

declare str_nat.simps [simp del]

section \<open>Classification\<close>

text \<open>
  \<^verbatim>\<open>determine_bp_category\<close> (lines 63-73) on two numbers. A chained comparison
  \<^verbatim>\<open>a <= x < b\<close> is \<^verbatim>\<open>a <= x and x < b\<close>.
\<close>

definition determine_bp_category :: "pynum \<Rightarrow> pynum \<Rightarrow> string" where
  "determine_bp_category systolic diastolic =
     (if py_lt systolic (PInt 120) \<and> py_lt diastolic (PInt 80) then ''Normal''
      else if (py_le (PInt 120) systolic \<and> py_lt systolic (PInt 130))
              \<and> py_lt diastolic (PInt 80) then ''Elevated''
      else if (py_le (PInt 130) systolic \<and> py_lt systolic (PInt 140))
              \<or> (py_le (PInt 80) diastolic \<and> py_lt diastolic (PInt 90))
        then ''Hypertension Stage 1''
      else if py_ge systolic (PInt 140) \<or> py_ge diastolic (PInt 90)
        then ''Hypertension Stage 2''
      else ''Unknown'')"

section \<open>The prediction endpoint\<close>

text \<open>
  \<^verbatim>\<open>predict\<close> has two phases. Lines 19-41 either raise, return an error response, or
  leave \<^verbatim>\<open>systolic\<close> and \<^verbatim>\<open>diastolic\<close> bound; lines 43-51 classify the two and build
  the answer.
\<close>

datatype flow = Raised exn | Returned response | Values json json

text \<open>
  Lines 19-41. On a body that is not a dict, \<^verbatim>\<open>'signal' in data\<close> raises
  \<^verbatim>\<open>TypeError\<close> for \<^verbatim>\<open>None\<close>, a bool and a number; on a list or a string it is a
  membership test, and the \<^verbatim>\<open>data.get\<close> that follows in either branch raises
  \<^verbatim>\<open>AttributeError\<close>.

  In lines 31 and 32 \<^verbatim>\<open>mean_signal\<close> is a float, so the arithmetic is float
  arithmetic; the ints \<^verbatim>\<open>120\<close>, \<^verbatim>\<open>128\<close> and \<^verbatim>\<open>80\<close> are doubles exactly. The bounds
  given to \<^verbatim>\<open>min\<close> and \<^verbatim>\<open>max\<close> stay ints.
\<close>

fun predict_values :: "json \<Rightarrow> flow" where
  "predict_values (JDict data) =
     (if dict_contains data ''signal'' then
        (let signal = dict_get data ''signal'' (JList []);
             emotion = dict_get data ''emotion'' (JStr ''neutral'')
         in case py_len signal of
              Inl e \<Rightarrow> Raised e
            | Inr n \<Rightarrow>
                if n \<ge> 100 then
                  (case py_sum signal of
                     Inl e \<Rightarrow> Raised e
                   | Inr sum_signal \<Rightarrow>
                       (case py_truediv sum_signal n of
                          Inl e \<Rightarrow> Raised e
                        | Inr mean_signal \<Rightarrow>
                            (let systolic = py_min (PInt 160) (py_max (PInt 90)
                                   (PFloat (fadd (Fin 120)
                                      (fmul (fsub mean_signal (Fin 128)) float_0_3))));
                                 diastolic = py_min (PInt 100) (py_max (PInt 60)
                                   (PFloat (fadd (Fin 80)
                                      (fmul (fsub mean_signal (Fin 128)) float_0_2))))
                             in Values (JNum systolic) (JNum diastolic))))
                else Returned (jsonify [(''error'', JStr ''Insufficient signal data'')] 400))
      else
        (let systolic = dict_get data ''systolic'' JNull;
             diastolic = dict_get data ''diastolic'' JNull
         in if systolic = JNull \<or> diastolic = JNull
            then Returned (jsonify [(''error'', JStr ''Invalid input'')] 400)
            else Values systolic diastolic))"
| "predict_values (JList xs) = Raised AttributeError"
| "predict_values (JStr s) = Raised AttributeError"
| "predict_values v = Raised TypeError"

text \<open>
  Lines 43-51. The comparisons of \<^verbatim>\<open>determine_bp_category\<close> and the two calls of
  \<^verbatim>\<open>round\<close> need numbers: when either value is not one, a comparison or a
  \<^verbatim>\<open>round\<close> raises \<^verbatim>\<open>TypeError\<close> before the answer is built.
\<close>

definition predict_result :: "json \<Rightarrow> json \<Rightarrow> exn + response" where
  "predict_result systolic diastolic =
     (case (py_num systolic, py_num diastolic) of
        (Some s, Some d) \<Rightarrow>
          (let category = determine_bp_category s d;
               result = [(''systolic'', JNum (py_round s)),
                         (''diastolic'', JNum (py_round d)),
                         (''category'', JStr category),
                         (''success'', JBool True)]
           in Inr (jsonify result 200))
      | _ \<Rightarrow> Inl TypeError)"

definition predict :: "json \<Rightarrow> exn + response" where
  "predict data =
     (case predict_values data of
        Raised e \<Rightarrow> Inl e
      | Returned r \<Rightarrow> Inr r
      | Values systolic diastolic \<Rightarrow> predict_result systolic diastolic)"

section \<open>The export endpoint\<close>

text \<open>
  \<^verbatim>\<open>export_session\<close> (lines 53-61) prints one line and answers. The result is the line
  printed together with the response. \<^verbatim>\<open>data.get\<close> exists on a dict only.
\<close>

fun export_session :: "json \<Rightarrow> exn + (string \<times> response)" where
  "export_session (JDict data) =
     (case py_len (dict_get data ''samples'' (JList [])) of
        Inl e \<Rightarrow> Inl e
      | Inr n \<Rightarrow>
          Inr (''Session exported: '' @ str_nat n @ '' samples'',
               jsonify [(''success'', JBool True),
                        (''message'', JStr ''Session data exported successfully'')] 200))"
| "export_session v = Inl AttributeError"

section \<open>The specification's vocabulary\<close>

text \<open>The arithmetic mean of a sequence of numbers.\<close>

definition arith_mean :: "rat list \<Rightarrow> rat" where
  "arith_mean rs = sum_list rs / of_nat (length rs)"

text \<open>\<open>clamp(x, lo, hi)\<close> as the specification uses it: \<open>x\<close> brought into \<open>[lo, hi]\<close>.\<close>

definition spec_clamp :: "rat \<Rightarrow> rat \<Rightarrow> rat \<Rightarrow> rat" where
  "spec_clamp x lo hi = (if x < lo then lo else if x > hi then hi else x)"

text \<open>The same on Python's numbers, with Python's comparisons.\<close>

definition clamp_num :: "pynum \<Rightarrow> pynum \<Rightarrow> pynum \<Rightarrow> pynum" where
  "clamp_num x lo hi = (if py_lt x lo then lo else if py_lt hi x then hi else x)"

text \<open>
  The specification's formulas for a mean \<open>m\<close>, evaluated as the code evaluates them, in
  double arithmetic: \<open>clamp(120 + (m - 128) * 0.3, 90, 160)\<close> and
  \<open>clamp(80 + (m - 128) * 0.2, 60, 100)\<close>.
\<close>

definition spec_systolic :: "pyfloat \<Rightarrow> pynum" where
  "spec_systolic m =
     clamp_num (PFloat (fadd (Fin 120) (fmul (fsub m (Fin 128)) float_0_3))) (PInt 90) (PInt 160)"

definition spec_diastolic :: "pyfloat \<Rightarrow> pynum" where
  "spec_diastolic m =
     clamp_num (PFloat (fadd (Fin 80) (fmul (fsub m (Fin 128)) float_0_2))) (PInt 60) (PInt 100)"

text \<open>A finite number: an int, or a float that is neither an infinity nor a NaN.\<close>

fun finite_num :: "pynum \<Rightarrow> bool" where
  "finite_num (PInt k) = True"
| "finite_num (PFloat (Fin r)) = True"
| "finite_num (PFloat x) = False"

text \<open>
  The classification as the specification words it: an ordered list of rules, the first
  rule whose condition holds gives the category, and \<open>Unknown\<close> when none does.
\<close>

definition spec_rules :: "((pynum \<Rightarrow> pynum \<Rightarrow> bool) \<times> string) list" where
  "spec_rules =
     [(\<lambda>s d. py_lt s (PInt 120) \<and> py_lt d (PInt 80), ''Normal''),
      (\<lambda>s d. (py_le (PInt 120) s \<and> py_lt s (PInt 130)) \<and> py_lt d (PInt 80), ''Elevated''),
      (\<lambda>s d. (py_le (PInt 130) s \<and> py_lt s (PInt 140))
               \<or> (py_le (PInt 80) d \<and> py_lt d (PInt 90)), ''Hypertension Stage 1''),
      (\<lambda>s d. py_ge s (PInt 140) \<or> py_ge d (PInt 90), ''Hypertension Stage 2'')]"

fun first_match ::
  "((pynum \<Rightarrow> pynum \<Rightarrow> bool) \<times> string) list \<Rightarrow> pynum \<Rightarrow> pynum \<Rightarrow> string" where
  "first_match [] s d = ''Unknown''"
| "first_match ((p, c) # rules) s d = (if p s d then c else first_match rules s d)"

text \<open>
  A value \<open>r\<close> is \<open>x\<close> rounded to one decimal place: \<open>r\<close> is a whole number of tenths
  and lies within half a tenth of \<open>x\<close>.
\<close>

definition rounded_to_1_decimal :: "rat \<Rightarrow> rat \<Rightarrow> bool" where
  "rounded_to_1_decimal x r = (of_int (floor (r * 10)) = r * 10 \<and> \<bar>r - x\<bar> \<le> 1/20)"

section \<open>Facts about the operations\<close>

subsection \<open>Evaluating the rounding\<close>

lemma floor_rat_numeral_div:
  "floor ((numeral a :: rat) / numeral b) = numeral a div numeral b"
  using floor_divide_of_int_eq [of "numeral a" "numeral b", where ?'a = rat] by simp

lemma ceiling_rat_numeral_div:
  "ceiling ((numeral a :: rat) / numeral b) = - ((- numeral a) div numeral b)"
  using ceiling_divide_eq_div [of "numeral a" "numeral b", where ?'a = rat] by simp

lemma floor_rat_one_div:
  "floor ((1 :: rat) / numeral b) = 1 div numeral b"
  using floor_divide_of_int_eq [of 1 "numeral b", where ?'a = rat] by simp

lemma ceiling_rat_one_div:
  "ceiling ((1 :: rat) / numeral b) = - ((- 1) div numeral b)"
  using ceiling_divide_eq_div [of 1 "numeral b", where ?'a = rat] by simp

lemmas float_eval = round_double_def round_at_def overflow_check_def round_half_even_def
  ilog2_def pow2_def Let_def compute_bitlen floor_rat_numeral_div ceiling_rat_numeral_div
  floor_rat_one_div ceiling_rat_one_div

lemma float_0_3_val: "float_0_3 = Fin (5404319552844595 / 18014398509481984)"
  unfolding float_0_3_def by (simp add: float_eval)

lemma float_0_2_val: "float_0_2 = Fin (3602879701896397 / 18014398509481984)"
  unfolding float_0_2_def by (simp add: float_eval)

lemma round_double_not_nan: "round_double q \<noteq> NaN"
  by (simp add: round_double_def round_at_def overflow_check_def)

lemma round_double_0: "round_double 0 = Fin 0"
  by (simp add: round_double_def)

lemma round_double_small:
  "round_double 128 = Fin 128" "round_double 120 = Fin 120" "round_double 80 = Fin 80"
  "round_double 100 = Fin 100"
  by (simp_all add: float_eval)

text \<open>
  The rounding on values whose doubles are known: the sum of the doubles \<^verbatim>\<open>0.1\<close> and
  \<^verbatim>\<open>0.2\<close> is \<^verbatim>\<open>0.30000000000000004\<close>, \<^verbatim>\<open>4.0 / 3.0\<close>, a float beyond the
  integers that doubles hold exactly, and the half of the least positive double.
\<close>

lemma round_double_known:
  "round_double (3602879701896397 / 36028797018963968 + 3602879701896397 / 18014398509481984)
     = Fin (1351079888211149 / 4503599627370496)"
  "round_double (4 / 3) = Fin (6004799503160661 / 4503599627370496)"
  "round_double (2 ^ 53 + 1) = Fin (2 ^ 53)"
  "round_double (1 / 2 ^ 1075) = Fin 0"
  by (simp_all add: float_eval)

subsection \<open>Sums and means\<close>

lemma to_float_cases: "to_float k = Inl OverflowError \<or> (\<exists>r. to_float k = Inr (Fin r))"
  by (cases "round_double (of_int k)") (simp_all add: to_float_def)

lemma fadd_fin_right_not_nan: "a \<noteq> NaN \<Longrightarrow> fadd a (Fin y) \<noteq> NaN"
  by (cases a) (simp_all add: round_double_not_nan)

lemma fadd_fin_left_not_nan: "b \<noteq> NaN \<Longrightarrow> fadd (Fin x) b \<noteq> NaN"
  by (cases b) (simp_all add: round_double_not_nan)

lemma py_add_finite:
  assumes "finite_num b" and "exact a \<noteq> NaN"
  shows "py_add a b = Inl OverflowError \<or> (\<exists>c. py_add a b = Inr c \<and> exact c \<noteq> NaN)"
proof (cases b)
  case (PInt j)
  show ?thesis
  proof (cases a)
    case (PInt i)
    with \<open>b = PInt j\<close> show ?thesis by simp
  next
    case (PFloat x)
    with assms(2) have "x \<noteq> NaN" by simp
    with PFloat \<open>b = PInt j\<close> to_float_cases [of j] show ?thesis
      by (auto simp: fadd_fin_right_not_nan)
  qed
next
  case (PFloat y)
  with assms(1) obtain r where r: "y = Fin r"
    by (cases y) simp_all
  show ?thesis
  proof (cases a)
    case (PInt i)
    with PFloat r to_float_cases [of i] show ?thesis
      by (auto simp: round_double_not_nan)
  next
    case (PFloat x)
    with assms(2) have "x \<noteq> NaN" by simp
    with PFloat \<open>b = PFloat y\<close> r show ?thesis
      by (simp add: fadd_fin_right_not_nan)
  qed
qed

lemma sum_items_finite:
  "list_all finite_num ns \<Longrightarrow> exact acc \<noteq> NaN \<Longrightarrow>
   sum_items acc (map JNum ns) = Inl OverflowError
   \<or> (\<exists>sm. sum_items acc (map JNum ns) = Inr sm \<and> exact sm \<noteq> NaN)"
proof (induction ns arbitrary: acc)
  case Nil
  then show ?case by simp
next
  case (Cons n ns)
  from Cons.prems have n: "finite_num n" and ns: "list_all finite_num ns"
    by simp_all
  from py_add_finite [OF n Cons.prems(2)] show ?case
  proof
    assume "py_add acc n = Inl OverflowError"
    then show ?thesis by simp
  next
    assume "\<exists>c. py_add acc n = Inr c \<and> exact c \<noteq> NaN"
    then obtain c where c: "py_add acc n = Inr c" "exact c \<noteq> NaN"
      by blast
    from Cons.IH [OF ns c(2)] c(1) show ?thesis
      by simp
  qed
qed

lemma py_truediv_cases:
  assumes "exact sm \<noteq> NaN" and "0 < n"
  shows "py_truediv sm n = Inl OverflowError \<or> (\<exists>m. py_truediv sm n = Inr m \<and> m \<noteq> NaN)"
proof (cases sm)
  case (PInt a)
  with assms(2) show ?thesis
    by (cases "round_double (of_int a / of_nat n)") simp_all
next
  case (PFloat x)
  with assms(1) have x: "x \<noteq> NaN" by simp
  from to_float_cases [of "int n"] show ?thesis
  proof
    assume "to_float (int n) = Inl OverflowError"
    with PFloat show ?thesis by simp
  next
    assume "\<exists>r. to_float (int n) = Inr (Fin r)"
    then obtain r where "to_float (int n) = Inr (Fin r)" ..
    with PFloat assms(2) x show ?thesis
      by (cases x) (simp_all add: round_double_not_nan)
  qed
qed

lemma formula_not_nan:
  assumes "m \<noteq> NaN" and "0 < c"
  shows "fadd (Fin a) (fmul (fsub m (Fin b)) (Fin c)) \<noteq> NaN"
proof -
  have "fsub m (Fin b) \<noteq> NaN"
    using assms(1) by (simp add: fsub_def fadd_fin_right_not_nan)
  then have "fmul (fsub m (Fin b)) (Fin c) \<noteq> NaN"
    using assms(2) by (cases "fsub m (Fin b)") (simp_all add: round_double_not_nan)
  then show ?thesis
    by (rule fadd_fin_left_not_nan)
qed

lemma clamp_code_spec:
  assumes "x \<noteq> NaN" and "lo \<le> hi"
  shows "py_eq (py_min (PInt hi) (py_max (PInt lo) (PFloat x)))
               (clamp_num (PFloat x) (PInt lo) (PInt hi))
         \<and> py_le (PInt lo) (py_min (PInt hi) (py_max (PInt lo) (PFloat x)))
         \<and> py_le (py_min (PInt hi) (py_max (PInt lo) (PFloat x))) (PInt hi)"
  using assms
  by (cases x) (auto simp: py_min_def py_max_def clamp_num_def py_eq_def py_le_def py_lt_def)

lemma predict_values_mean:
  assumes "map_of data ''signal'' = Some sig" and "py_len sig = Inr n" and "100 \<le> n"
    and "py_sum sig = Inr sm" and "py_truediv sm n = Inr m"
  shows "predict_values (JDict data) =
           Values (JNum (py_min (PInt 160) (py_max (PInt 90)
                     (PFloat (fadd (Fin 120) (fmul (fsub m (Fin 128)) float_0_3))))))
                  (JNum (py_min (PInt 100) (py_max (PInt 60)
                     (PFloat (fadd (Fin 80) (fmul (fsub m (Fin 128)) float_0_2))))))"
  using assms by (simp add: dict_contains_def dict_get_def)

lemma predict_values_overflow:
  assumes "map_of data ''signal'' = Some sig" and "py_len sig = Inr n" and "100 \<le> n"
    and "py_sum sig = Inl e \<or> (\<exists>sm. py_sum sig = Inr sm \<and> py_truediv sm n = Inl e)"
  shows "predict_values (JDict data) = Raised e"
  using assms by (auto simp: dict_contains_def dict_get_def)

lemma sum_items_ints:
  "sum_items (PInt a) (map JInt ks) = Inr (PInt (a + sum_list ks))"
  by (induction ks arbitrary: a) (simp_all add: add.assoc)

lemma sum_items_replicate_int:
  "sum_items (PInt a) (replicate n (JInt k)) = Inr (PInt (a + int n * k))"
  by (induction n arbitrary: a) (simp_all add: algebra_simps)

lemma sum_items_inf_zeros:
  "sum_items (PFloat PosInf) (replicate n (JFloat 0)) = Inr (PFloat PosInf)"
  by (induction n) simp_all

lemma of_int_sum_list_rat: "(of_int (sum_list ks) :: rat) = sum_list (map of_int ks)"
  by (induction ks) simp_all

lemma values_at_mean_128:
  "py_min (PInt 160) (py_max (PInt 90)
     (PFloat (fadd (Fin 120) (fmul (fsub (Fin 128) (Fin 128)) float_0_3)))) = PFloat (Fin 120)"
  "py_min (PInt 100) (py_max (PInt 60)
     (PFloat (fadd (Fin 80) (fmul (fsub (Fin 128) (Fin 128)) float_0_2)))) = PFloat (Fin 80)"
  by (simp_all add: fsub_def float_0_3_val float_0_2_val round_double_0 round_double_small
      py_min_def py_max_def py_lt_def)

lemma predict_of_values:
  assumes "predict_values req = Values (JNum s) (JNum d)"
  shows "predict req =
           Inr (Response 200 (JDict [(''systolic'', JNum (py_round s)),
                                     (''diastolic'', JNum (py_round d)),
                                     (''category'', JStr (determine_bp_category s d)),
                                     (''success'', JBool True)]))"
  using assms by (simp add: predict_def predict_result_def jsonify_def)

lemma category_120_80:
  "determine_bp_category (PFloat (Fin 120)) (PFloat (Fin 80)) = ''Hypertension Stage 1''"
  by (simp add: determine_bp_category_def py_lt_def py_le_def py_ge_def)

lemma round_double_big:
  "round_double (2 ^ 1023) = Fin (2 ^ 1023)" "round_double (2 ^ 1024) = PosInf"
  by (simp_all add: float_eval)

lemma to_float_small: "to_float 0 = Inr (Fin 0)" "to_float 100 = Inr (Fin 100)"
  by (simp_all add: to_float_def round_double_0 round_double_small)

subsection \<open>Rounding to one decimal place\<close>

lemma py_round1_tenth: "of_int (floor (py_round1 x * 10)) = py_round1 x * 10"
  by (simp add: py_round1_def Let_def)

lemma py_round1_near: "\<bar>py_round1 x - x\<bar> \<le> 1/20"
proof -
  define y where "y = x * 10"
  define f where "f = floor y"
  define r where "r = y - of_int f"
  have lo: "0 \<le> r" and hi: "r < 1"
    unfolding r_def f_def by linarith+
  define n where
    "n = (if r < 1/2 then f else if r > 1/2 then f + 1 else if even f then f else f + 1)"
  have eq: "py_round1 x - x = (of_int n - y) / 10"
    by (simp add: py_round1_def Let_def n_def r_def f_def y_def diff_divide_distrib)
  have "\<bar>of_int n - y\<bar> \<le> 1/2"
    using lo hi unfolding n_def r_def by (auto simp: abs_if)
  then have "\<bar>of_int n - y\<bar> / 10 \<le> 1/20"
    by simp
  then show ?thesis
    unfolding eq abs_divide by simp
qed

lemma py_round1_rounded: "rounded_to_1_decimal x (py_round1 x)"
  unfolding rounded_to_1_decimal_def using py_round1_tenth py_round1_near by blast

lemma py_round1_of_int: "py_round1 (of_int k) = of_int k"
  by (simp add: py_round1_def Let_def)

lemma py_round1_numeral: "py_round1 (numeral k) = numeral k"
  using py_round1_of_int [of "numeral k"] by simp

lemma py_round_rounded:
  assumes "exact v = Fin x"
  shows "\<exists>r. exact (py_round v) = Fin r \<and> rounded_to_1_decimal x r"
proof (cases v)
  case (PInt k)
  with assms have x: "x = of_int k" by simp
  have "of_int (floor (of_int (k * 10) :: rat)) = (of_int (k * 10) :: rat)"
    by (simp only: floor_of_int)
  then have "rounded_to_1_decimal (of_int k) (of_int k)"
    by (simp add: rounded_to_1_decimal_def)
  with PInt x show ?thesis
    by simp
next
  case (PFloat y)
  with assms have "y = Fin x" by simp
  with PFloat show ?thesis
    by (simp add: py_round1_rounded)
qed

lemma py_eq_int: "py_eq v (PInt k) \<longleftrightarrow> v = PInt k \<or> v = PFloat (Fin (of_int k))"
proof (cases v)
  case (PInt j)
  then show ?thesis by (simp add: py_eq_def)
next
  case (PFloat y)
  then show ?thesis by (cases y) (auto simp: py_eq_def)
qed

lemma fl_eq_same: "fl_eq a b \<Longrightarrow> a = b"
  by (cases a; cases b) simp_all

lemma category_by_value:
  assumes "py_eq s s'" and "py_eq d d'"
  shows "determine_bp_category s d = determine_bp_category s' d'"
proof -
  from assms have "exact s = exact s'" and "exact d = exact d'"
    by (simp_all add: py_eq_def fl_eq_same)
  then show ?thesis
    by (simp add: determine_bp_category_def py_lt_def py_le_def py_ge_def)
qed

lemma py_round_int_valued: "py_eq v (PInt k) \<Longrightarrow> py_round v = v"
  by (auto simp: py_eq_int py_round1_of_int)

text \<open>The legacy branch on two numbers reaches line 43 with them.\<close>

lemma predict_values_legacy:
  assumes "map_of data ''signal'' = None"
    and "map_of data ''systolic'' = Some (JNum s)"
    and "map_of data ''diastolic'' = Some (JNum d)"
  shows "predict_values (JDict data) = Values (JNum s) (JNum d)"
  using assms by (simp add: dict_contains_def dict_get_def)

section \<open>Classification: the rules and their coverage\<close>

text \<open>
  Claim C2. For every pair of numbers the category that \<^verbatim>\<open>determine_bp_category\<close>
  returns is the one given by the specification's four rules taken in their order, the
  first rule that matches winning, and \<open>Unknown\<close> when no rule matches.
\<close>

theorem determine_bp_category_first_match:
  "determine_bp_category s d = first_match spec_rules s d"
  by (simp add: determine_bp_category_def spec_rules_def)

text \<open>
  Claim C9. When systolic lies in \<open>[90, 160]\<close> and diastolic in \<open>[60, 100]\<close>, the ranges
  the signal branch clamps to, the classification never returns \<open>Unknown\<close>.
\<close>

theorem category_known_in_clamped_range:
  assumes "py_le (PInt 90) s" and "py_le s (PInt 160)"
    and "py_le (PInt 60) d" and "py_le d (PInt 100)"
  shows "determine_bp_category s d \<noteq> ''Unknown''"
proof -
  obtain x where x: "exact s = x" by simp
  obtain y where y: "exact d = y" by simp
  from assms x y show ?thesis
    by (cases x; cases y)
       (auto simp: determine_bp_category_def py_le_def py_lt_def py_ge_def)
qed

theorem category_known_in_clamped_range_witness:
  "py_le (PInt 90) (PFloat (Fin 120)) \<and> py_le (PFloat (Fin 120)) (PInt 160)
   \<and> py_le (PInt 60) (PFloat (Fin 80)) \<and> py_le (PFloat (Fin 80)) (PInt 100)
   \<and> determine_bp_category (PFloat (Fin 120)) (PFloat (Fin 80)) \<noteq> ''Unknown''"
proof -
  have h: "py_le (PInt 90) (PFloat (Fin 120))" "py_le (PFloat (Fin 120)) (PInt 160)"
    "py_le (PInt 60) (PFloat (Fin 80))" "py_le (PFloat (Fin 80)) (PInt 100)"
    by (simp_all add: py_le_def)
  from h category_known_in_clamped_range [OF h] show ?thesis
    by blast
qed

section \<open>The signal branch\<close>

text \<open>
  Claim C3, as the code has it. For a request whose \<open>signal\<close> is a list of at least 100
  finite numbers, either computing \<^verbatim>\<open>sum(signal) / len(signal)\<close> raises
  \<^verbatim>\<open>OverflowError\<close> and no values are computed, or the values bound at line 43 equal
  \<open>clamp(120 + (m - 128) * 0.3, 90, 160)\<close> and \<open>clamp(80 + (m - 128) * 0.2, 60, 100)\<close>
  evaluated in double arithmetic, where \<open>m\<close> is the float that
  \<^verbatim>\<open>sum(signal) / len(signal)\<close> yields; systolic then lies in \<open>[90, 160]\<close> and diastolic
  in \<open>[60, 100]\<close>. The float \<open>m\<close> can differ from the arithmetic mean, and is infinite
  when the sum overflows.
\<close>

theorem signal_values_clamped:
  assumes "map_of data ''signal'' = Some (JList (map JNum ns))"
    and "100 \<le> length ns"
    and "list_all finite_num ns"
  shows "predict_values (JDict data) = Raised OverflowError
         \<or> (\<exists>sm m s d.
               py_sum (JList (map JNum ns)) = Inr sm
             \<and> py_truediv sm (length ns) = Inr m
             \<and> predict_values (JDict data) = Values (JNum s) (JNum d)
             \<and> py_eq s (spec_systolic m) \<and> py_eq d (spec_diastolic m)
             \<and> py_le (PInt 90) s \<and> py_le s (PInt 160)
             \<and> py_le (PInt 60) d \<and> py_le d (PInt 100))"
proof -
  let ?sig = "JList (map JNum ns)"
  have len: "py_len ?sig = Inr (length ns)"
    by simp
  have pos: "0 < length ns"
    using assms(2) by linarith
  from sum_items_finite [OF assms(3), of "PInt 0"]
  have "py_sum ?sig = Inl OverflowError
        \<or> (\<exists>sm. py_sum ?sig = Inr sm \<and> exact sm \<noteq> NaN)"
    by simp
  then show ?thesis
  proof
    assume "py_sum ?sig = Inl OverflowError"
    then have "predict_values (JDict data) = Raised OverflowError"
      using predict_values_overflow [OF assms(1) len assms(2)] by blast
    then show ?thesis ..
  next
    assume "\<exists>sm. py_sum ?sig = Inr sm \<and> exact sm \<noteq> NaN"
    then obtain sm where sm: "py_sum ?sig = Inr sm" "exact sm \<noteq> NaN"
      by blast
    from py_truediv_cases [OF sm(2) pos] show ?thesis
    proof
      assume "py_truediv sm (length ns) = Inl OverflowError"
      with sm(1) have "predict_values (JDict data) = Raised OverflowError"
        using predict_values_overflow [OF assms(1) len assms(2)] by blast
      then show ?thesis ..
    next
      assume "\<exists>m. py_truediv sm (length ns) = Inr m \<and> m \<noteq> NaN"
      then obtain m where m: "py_truediv sm (length ns) = Inr m" "m \<noteq> NaN"
        by blast
      let ?fs = "fadd (Fin 120) (fmul (fsub m (Fin 128)) float_0_3)"
      let ?fd = "fadd (Fin 80) (fmul (fsub m (Fin 128)) float_0_2)"
      let ?s = "py_min (PInt 160) (py_max (PInt 90) (PFloat ?fs))"
      let ?d = "py_min (PInt 100) (py_max (PInt 60) (PFloat ?fd))"
      have fs: "?fs \<noteq> NaN" and fd: "?fd \<noteq> NaN"
        unfolding float_0_3_val float_0_2_val using m(2) by (simp_all add: formula_not_nan)
      have v: "predict_values (JDict data) = Values (JNum ?s) (JNum ?d)"
        by (rule predict_values_mean [OF assms(1) len assms(2) sm(1) m(1)])
      have s: "py_eq ?s (spec_systolic m) \<and> py_le (PInt 90) ?s \<and> py_le ?s (PInt 160)"
        unfolding spec_systolic_def by (rule clamp_code_spec [OF fs]) simp
      have d: "py_eq ?d (spec_diastolic m) \<and> py_le (PInt 60) ?d \<and> py_le ?d (PInt 100)"
        unfolding spec_diastolic_def by (rule clamp_code_spec [OF fd]) simp
      from sm(1) m(1) v s d show ?thesis
        by blast
    qed
  qed
qed

theorem signal_values_clamped_witness:
  "map_of [(''signal'', JList (map JNum (replicate 100 (PInt 138))))] ''signal''
     = Some (JList (map JNum (replicate 100 (PInt 138))))
   \<and> 100 \<le> length (replicate 100 (PInt 138))
   \<and> list_all finite_num (replicate 100 (PInt 138))
   \<and> py_sum (JList (map JNum (replicate 100 (PInt 138)))) = Inr (PInt 13800)
   \<and> py_truediv (PInt 13800) (length (replicate 100 (PInt 138))) = Inr (Fin 138)
   \<and> predict_values (JDict [(''signal'', JList (map JNum (replicate 100 (PInt 138))))])
     = Values (JFloat 123) (JFloat 82)
   \<and> py_eq (PFloat (Fin 123)) (spec_systolic (Fin 138))
   \<and> py_eq (PFloat (Fin 82)) (spec_diastolic (Fin 138))"
proof -
  let ?ns = "replicate 100 (PInt 138)"
  let ?data = "[(''signal'', JList (map JNum ?ns))]"
  have h1: "map_of ?data ''signal'' = Some (JList (map JNum ?ns))"
    by simp
  have h2: "100 \<le> length ?ns"
    by simp
  have h3: "list_all finite_num ?ns"
    by (simp add: list_all_iff)
  have s: "py_sum (JList (map JNum ?ns)) = Inr (PInt 13800)"
    by (simp add: sum_items_replicate_int)
  have rd: "round_double 138 = Fin 138" "round_double 10 = Fin 10" "round_double 123 = Fin 123"
    "round_double 82 = Fin 82"
    "round_double (10 * (5404319552844595 / 18014398509481984)) = Fin 3"
    "round_double (10 * (3602879701896397 / 18014398509481984)) = Fin 2"
    by (simp_all add: float_eval)
  have q: "py_truediv (PInt 13800) (length ?ns) = Inr (Fin 138)"
    by (simp add: rd)
  have fs: "fadd (Fin 120) (fmul (fsub (Fin 138) (Fin 128)) float_0_3) = Fin 123"
    and fd: "fadd (Fin 80) (fmul (fsub (Fin 138) (Fin 128)) float_0_2) = Fin 82"
    using rd by (simp_all add: fsub_def float_0_3_val float_0_2_val)
  have v: "predict_values (JDict ?data) = Values (JFloat 123) (JFloat 82)"
    using predict_values_mean [OF h1 _ _ s q]
    by (simp add: fs fd py_min_def py_max_def py_lt_def)
  from signal_values_clamped [OF h1 h2 h3] s q v
  have "py_eq (PFloat (Fin 123)) (spec_systolic (Fin 138))
        \<and> py_eq (PFloat (Fin 82)) (spec_diastolic (Fin 138))"
    by auto
  with h1 h2 h3 s q v show ?thesis
    by blast
qed

text \<open>
  A signal of one hundred finite floats with arithmetic mean 0, whose sum overflows after
  two items: the code computes systolic 160 and diastolic 100, where the formulas on the
  arithmetic mean give 90 and 60.
\<close>

theorem exact_mean_not_followed:
  "100 \<le> length ([2 ^ 1023, 2 ^ 1023, - (2 ^ 1023), - (2 ^ 1023)] @ replicate 96 (0::rat))
   \<and> arith_mean ([2 ^ 1023, 2 ^ 1023, - (2 ^ 1023), - (2 ^ 1023)] @ replicate 96 0) = 0
   \<and> spec_clamp (120 + (0 - 128) * (3/10)) 90 160 = 90
   \<and> spec_clamp (80 + (0 - 128) * (2/10)) 60 100 = 60
   \<and> predict_values
        (JDict [(''signal'',
           JList ([JFloat (2 ^ 1023), JFloat (2 ^ 1023), JFloat (- (2 ^ 1023)),
                   JFloat (- (2 ^ 1023))] @ replicate 96 (JFloat 0)))])
     = Values (JInt 160) (JInt 100)"
proof -
  define B :: rat where "B = 2 ^ 1023"
  let ?sig = "JList ([JFloat B, JFloat B, JFloat (- B), JFloat (- B)] @ replicate 96 (JFloat 0))"
  have m: "arith_mean ([B, B, - B, - B] @ replicate 96 0) = 0"
    by (simp add: arith_mean_def sum_list_replicate)
  have c: "spec_clamp (120 + (0 - 128) * (3/10)) 90 160 = 90"
    "spec_clamp (80 + (0 - 128) * (2/10)) 60 100 = 60"
    by (simp_all add: spec_clamp_def)
  have a1: "fadd (Fin 0) (Fin B) = Fin B"
    unfolding B_def using round_double_big(1) by simp
  have a2: "fadd (Fin B) (Fin B) = PosInf"
    unfolding B_def using round_double_big(2) by simp
  have s: "py_sum ?sig = Inr (PFloat PosInf)"
    by (simp add: to_float_small a1 a2 sum_items_inf_zeros del: fadd.simps(1))
  have l: "py_len ?sig = Inr 100"
    by simp
  have q: "py_truediv (PFloat PosInf) 100 = Inr PosInf"
    by (simp add: to_float_small)
  have "predict_values (JDict [(''signal'', ?sig)]) = Values (JInt 160) (JInt 100)"
    using predict_values_mean [OF _ l _ s q, of "[(''signal'', ?sig)]"]
    by (simp add: fsub_def float_0_3_val float_0_2_val py_min_def py_max_def py_lt_def)
  with m c show ?thesis
    unfolding B_def by simp
qed

text \<open>
  Claim C1, as the code has it. For a request whose \<open>signal\<close> has at least 100 items and
  is a list of integers with arithmetic mean 128, or any list for which
  \<^verbatim>\<open>sum(signal) / len(signal)\<close> yields the float 128, the response is HTTP 200 with
  systolic \<open>120.0\<close>, diastolic \<open>80.0\<close> and category \<open>Hypertension Stage 1\<close>: diastolic
  \<open>80.0\<close> is not below \<open>80\<close>, so the rule for \<open>Elevated\<close> does not match and the third
  rule does.
\<close>

theorem mean_128_response:
  assumes "map_of data ''signal'' = Some (JList xs)"
    and "100 \<le> length xs"
    and "(\<exists>ks. xs = map JInt ks \<and> arith_mean (map of_int ks) = 128)
         \<or> (\<exists>sm. py_sum (JList xs) = Inr sm \<and> py_truediv sm (length xs) = Inr (Fin 128))"
  shows "predict (JDict data) =
           Inr (Response 200 (JDict [(''systolic'', JFloat 120),
                                     (''diastolic'', JFloat 80),
                                     (''category'', JStr ''Hypertension Stage 1''),
                                     (''success'', JBool True)]))"
proof -
  have "\<exists>sm. py_sum (JList xs) = Inr sm \<and> py_truediv sm (length xs) = Inr (Fin 128)"
    using assms(3)
  proof
    assume "\<exists>ks. xs = map JInt ks \<and> arith_mean (map of_int ks) = 128"
    then obtain ks where ks: "xs = map JInt ks" "arith_mean (map of_int ks) = 128"
      by blast
    from ks(1) assms(2) have n: "length ks \<noteq> 0"
      by auto
    have q: "(of_int (sum_list ks) :: rat) / of_nat (length ks) = 128"
      using ks(2) by (simp add: arith_mean_def of_int_sum_list_rat)
    have "py_sum (JList xs) = Inr (PInt (sum_list ks))"
      by (simp add: ks(1) sum_items_ints)
    moreover have "py_truediv (PInt (sum_list ks)) (length xs) = Inr (Fin 128)"
      using n by (simp add: ks(1) q round_double_small)
    ultimately show ?thesis
      by blast
  qed
  then obtain sm where sm: "py_sum (JList xs) = Inr sm"
      "py_truediv sm (length xs) = Inr (Fin 128)"
    by blast
  have len: "py_len (JList xs) = Inr (length xs)"
    by simp
  have "predict_values (JDict data) = Values (JFloat 120) (JFloat 80)"
    using predict_values_mean [OF assms(1) len assms(2) sm]
    by (simp only: values_at_mean_128)
  then show ?thesis
    by (simp add: predict_of_values py_round1_numeral category_120_80)
qed

theorem mean_128_response_witness:
  "map_of [(''signal'', JList (map JInt (replicate 50 100 @ replicate 50 156))),
           (''emotion'', JStr ''calm'')] ''signal''
     = Some (JList (map JInt (replicate 50 100 @ replicate 50 156)))
   \<and> 100 \<le> length (map JInt (replicate 50 100 @ replicate 50 156))
   \<and> arith_mean (map of_int (replicate 50 100 @ replicate 50 156)) = 128
   \<and> predict (JDict [(''signal'', JList (map JInt (replicate 50 100 @ replicate 50 156))),
                      (''emotion'', JStr ''calm'')]) =
       Inr (Response 200 (JDict [(''systolic'', JFloat 120),
                                 (''diastolic'', JFloat 80),
                                 (''category'', JStr ''Hypertension Stage 1''),
                                 (''success'', JBool True)]))"
proof -
  have h1: "map_of [(''signal'', JList (map JInt (replicate 50 100 @ replicate 50 156))),
                    (''emotion'', JStr ''calm'')] ''signal''
              = Some (JList (map JInt (replicate 50 100 @ replicate 50 156)))"
    by simp
  have h2: "100 \<le> length (map JInt (replicate 50 100 @ replicate 50 156))"
    by simp
  have m: "arith_mean (map of_int (replicate 50 100 @ replicate 50 156)) = 128"
    by (simp add: arith_mean_def sum_list_replicate)
  then have h3: "(\<exists>ks. map JInt (replicate 50 100 @ replicate 50 156) = map JInt ks
                     \<and> arith_mean (map of_int ks) = 128)
         \<or> (\<exists>sm. py_sum (JList (map JInt (replicate 50 100 @ replicate 50 156))) = Inr sm
                 \<and> py_truediv sm (length (map JInt (replicate 50 100 @ replicate 50 156)))
                    = Inr (Fin 128))"
    by blast
  from h1 h2 m mean_128_response [OF h1 h2 h3] show ?thesis
    by blast
qed

text \<open>
  The request with one hundred samples of value 128: its signal has length 100 and mean
  128, and the category of the response is \<open>Hypertension Stage 1\<close>, not \<open>Elevated\<close>.
\<close>

theorem mean_128_not_elevated:
  "100 \<le> length (replicate 100 (128::int))
   \<and> arith_mean (map of_int (replicate 100 128)) = 128
   \<and> predict (JDict [(''signal'', JList (map JInt (replicate 100 128)))]) =
       Inr (Response 200 (JDict [(''systolic'', JFloat 120),
                                 (''diastolic'', JFloat 80),
                                 (''category'', JStr ''Hypertension Stage 1''),
                                 (''success'', JBool True)]))
   \<and> predict (JDict [(''signal'', JList (map JInt (replicate 100 128)))]) \<noteq>
       Inr (Response 200 (JDict [(''systolic'', JFloat 120),
                                 (''diastolic'', JFloat 80),
                                 (''category'', JStr ''Elevated''),
                                 (''success'', JBool True)]))"
proof -
  let ?data = "[(''signal'', JList (map JInt (replicate 100 128)))]"
  have m: "arith_mean (map of_int (replicate 100 128)) = 128"
    by (simp add: arith_mean_def sum_list_replicate)
  have s: "py_sum (JList (map JInt (replicate 100 128))) = Inr (PInt 12800)"
    by (simp add: sum_items_replicate_int)
  have d: "py_truediv (PInt 12800) 100 = Inr (Fin 128)"
    by (simp add: round_double_small)
  have "predict_values (JDict ?data) = Values (JFloat 120) (JFloat 80)"
    using predict_values_mean [of ?data "JList (map JInt (replicate 100 128))" 100 "PInt 12800" "Fin 128"]
      s d
    by (simp only: values_at_mean_128) simp
  then have "predict (JDict ?data) =
       Inr (Response 200 (JDict [(''systolic'', JFloat 120),
                                 (''diastolic'', JFloat 80),
                                 (''category'', JStr ''Hypertension Stage 1''),
                                 (''success'', JBool True)]))"
    by (simp add: predict_of_values py_round1_numeral category_120_80)
  with m show ?thesis
    by simp
qed

text \<open>
  Claim C4. For a request whose \<open>signal\<close> field holds a value with fewer than 100
  elements, the endpoint answers HTTP 400 with \<open>{error: "Insufficient signal data"}\<close>, and
  line 43 is not reached: no prediction is computed.
\<close>

theorem short_signal_rejected:
  assumes "map_of data ''signal'' = Some sig" and "py_len sig = Inr n" and "n < 100"
  shows "predict (JDict data) =
           Inr (Response 400 (JDict [(''error'', JStr ''Insufficient signal data'')]))
         \<and> (\<forall>s d. predict_values (JDict data) \<noteq> Values s d)"
  using assms by (simp add: predict_def dict_contains_def dict_get_def jsonify_def)

theorem short_signal_rejected_witness:
  "map_of [(''signal'', JList [JInt 127, JInt 129])] ''signal'' = Some (JList [JInt 127, JInt 129])
   \<and> py_len (JList [JInt 127, JInt 129]) = Inr 2
   \<and> (2::nat) < 100
   \<and> predict (JDict [(''signal'', JList [JInt 127, JInt 129])]) =
       Inr (Response 400 (JDict [(''error'', JStr ''Insufficient signal data'')]))
   \<and> (\<forall>s d. predict_values (JDict [(''signal'', JList [JInt 127, JInt 129])]) \<noteq> Values s d)"
proof -
  have h1: "map_of [(''signal'', JList [JInt 127, JInt 129])] ''signal''
              = Some (JList [JInt 127, JInt 129])"
    by simp
  have h2: "py_len (JList [JInt 127, JInt 129]) = Inr 2"
    by simp
  have h3: "(2::nat) < 100"
    by simp
  from h1 h2 h3 short_signal_rejected [OF h1 h2 h3] show ?thesis
    by blast
qed

section \<open>The legacy branch\<close>

text \<open>
  Claim C5. For a request without a \<open>signal\<close> field in which the \<open>systolic\<close> field or the
  \<open>diastolic\<close> field is absent, the endpoint answers HTTP 400 with
  \<open>{error: "Invalid input"}\<close>.
\<close>

theorem legacy_missing_field_rejected:
  assumes "map_of data ''signal'' = None"
    and "map_of data ''systolic'' = None \<or> map_of data ''diastolic'' = None"
  shows "predict (JDict data) = Inr (Response 400 (JDict [(''error'', JStr ''Invalid input'')]))"
  using assms by (auto simp: predict_def dict_contains_def dict_get_def jsonify_def)

theorem legacy_missing_field_rejected_witness:
  "map_of [(''systolic'', JInt 120)] ''signal'' = None
   \<and> (map_of [(''systolic'', JInt 120)] ''systolic'' = None
        \<or> map_of [(''systolic'', JInt 120)] ''diastolic'' = None)
   \<and> predict (JDict [(''systolic'', JInt 120)]) =
       Inr (Response 400 (JDict [(''error'', JStr ''Invalid input'')]))"
proof -
  have h1: "map_of [(''systolic'', JInt 120)] ''signal'' = None"
    by simp
  have h2: "map_of [(''systolic'', JInt 120)] ''systolic'' = None
            \<or> map_of [(''systolic'', JInt 120)] ''diastolic'' = None"
    by simp
  from h1 h2 legacy_missing_field_rejected [OF h1 h2] show ?thesis
    by blast
qed

text \<open>
  Claim C6. A legacy request with systolic 118 and diastolic 75 is answered with category
  \<open>Normal\<close>, one with 125 and 78 with \<open>Elevated\<close>, one with 135 and 85 with
  \<open>Hypertension Stage 1\<close>, and one with 145 and 95 with \<open>Hypertension Stage 2\<close>, whether
  the two numbers are given as ints or as floats.
\<close>

theorem legacy_test_inputs:
  assumes "map_of data ''signal'' = None"
    and "map_of data ''systolic'' = Some (JNum sv)"
    and "map_of data ''diastolic'' = Some (JNum dv)"
  shows "(py_eq sv (PInt 118) \<and> py_eq dv (PInt 75)
            \<longrightarrow> predict (JDict data) =
                  Inr (Response 200 (JDict [(''systolic'', JNum sv), (''diastolic'', JNum dv),
                         (''category'', JStr ''Normal''), (''success'', JBool True)])))
       \<and> (py_eq sv (PInt 125) \<and> py_eq dv (PInt 78)
            \<longrightarrow> predict (JDict data) =
                  Inr (Response 200 (JDict [(''systolic'', JNum sv), (''diastolic'', JNum dv),
                         (''category'', JStr ''Elevated''), (''success'', JBool True)])))
       \<and> (py_eq sv (PInt 135) \<and> py_eq dv (PInt 85)
            \<longrightarrow> predict (JDict data) =
                  Inr (Response 200 (JDict [(''systolic'', JNum sv), (''diastolic'', JNum dv),
                         (''category'', JStr ''Hypertension Stage 1''),
                         (''success'', JBool True)])))
       \<and> (py_eq sv (PInt 145) \<and> py_eq dv (PInt 95)
            \<longrightarrow> predict (JDict data) =
                  Inr (Response 200 (JDict [(''systolic'', JNum sv), (''diastolic'', JNum dv),
                         (''category'', JStr ''Hypertension Stage 2''),
                         (''success'', JBool True)])))"
proof -
  have run: "predict (JDict data) =
               Inr (Response 200 (JDict [(''systolic'', JNum (py_round sv)),
                      (''diastolic'', JNum (py_round dv)),
                      (''category'', JStr (determine_bp_category sv dv)),
                      (''success'', JBool True)]))"
    by (rule predict_of_values [OF predict_values_legacy [OF assms]])
  have answer: "predict (JDict data) =
               Inr (Response 200 (JDict [(''systolic'', JNum sv), (''diastolic'', JNum dv),
                      (''category'', JStr c), (''success'', JBool True)]))"
    if "py_eq sv (PInt a)" and "py_eq dv (PInt b)"
      and "determine_bp_category (PInt a) (PInt b) = c" for a b c
    unfolding run py_round_int_valued [OF that(1)] py_round_int_valued [OF that(2)]
      category_by_value [OF that(1,2)] that(3) ..
  have c1: "determine_bp_category (PInt 118) (PInt 75) = ''Normal''"
    and c2: "determine_bp_category (PInt 125) (PInt 78) = ''Elevated''"
    and c3: "determine_bp_category (PInt 135) (PInt 85) = ''Hypertension Stage 1''"
    and c4: "determine_bp_category (PInt 145) (PInt 95) = ''Hypertension Stage 2''"
    by (simp_all add: determine_bp_category_def py_lt_def py_le_def py_ge_def)
  show ?thesis
    using answer [OF _ _ c1] answer [OF _ _ c2] answer [OF _ _ c3] answer [OF _ _ c4]
    by blast
qed

theorem legacy_test_inputs_witness:
  "predict (JDict [(''systolic'', JInt 118), (''diastolic'', JInt 75)]) =
     Inr (Response 200 (JDict [(''systolic'', JInt 118), (''diastolic'', JInt 75),
            (''category'', JStr ''Normal''), (''success'', JBool True)]))
   \<and> predict (JDict [(''systolic'', JInt 125), (''diastolic'', JFloat 78)]) =
     Inr (Response 200 (JDict [(''systolic'', JInt 125), (''diastolic'', JFloat 78),
            (''category'', JStr ''Elevated''), (''success'', JBool True)]))
   \<and> predict (JDict [(''systolic'', JFloat 135), (''diastolic'', JInt 85)]) =
     Inr (Response 200 (JDict [(''systolic'', JFloat 135), (''diastolic'', JInt 85),
            (''category'', JStr ''Hypertension Stage 1''), (''success'', JBool True)]))
   \<and> predict (JDict [(''systolic'', JInt 145), (''diastolic'', JInt 95)]) =
     Inr (Response 200 (JDict [(''systolic'', JInt 145), (''diastolic'', JInt 95),
            (''category'', JStr ''Hypertension Stage 2''), (''success'', JBool True)]))"
proof -
  have e: "py_eq (PInt k) (PInt k)" "py_eq (PFloat (Fin (of_int k))) (PInt k)" for k
    by (simp_all add: py_eq_def)
  have f: "py_eq (PFloat (Fin 78)) (PInt 78)" "py_eq (PFloat (Fin 135)) (PInt 135)"
    using e(2) [of 78] e(2) [of 135] by simp_all
  have w1: "predict (JDict [(''systolic'', JInt 118), (''diastolic'', JInt 75)]) =
     Inr (Response 200 (JDict [(''systolic'', JInt 118), (''diastolic'', JInt 75),
            (''category'', JStr ''Normal''), (''success'', JBool True)]))"
    using legacy_test_inputs
      [of "[(''systolic'', JInt 118), (''diastolic'', JInt 75)]" "PInt 118" "PInt 75"] e(1)
    by simp
  have w2: "predict (JDict [(''systolic'', JInt 125), (''diastolic'', JFloat 78)]) =
     Inr (Response 200 (JDict [(''systolic'', JInt 125), (''diastolic'', JFloat 78),
            (''category'', JStr ''Elevated''), (''success'', JBool True)]))"
    using legacy_test_inputs
      [of "[(''systolic'', JInt 125), (''diastolic'', JFloat 78)]" "PInt 125" "PFloat (Fin 78)"]
      e(1) f(1)
    by simp
  have w3: "predict (JDict [(''systolic'', JFloat 135), (''diastolic'', JInt 85)]) =
     Inr (Response 200 (JDict [(''systolic'', JFloat 135), (''diastolic'', JInt 85),
            (''category'', JStr ''Hypertension Stage 1''), (''success'', JBool True)]))"
    using legacy_test_inputs
      [of "[(''systolic'', JFloat 135), (''diastolic'', JInt 85)]" "PFloat (Fin 135)" "PInt 85"]
      e(1) f(2)
    by simp
  have w4: "predict (JDict [(''systolic'', JInt 145), (''diastolic'', JInt 95)]) =
     Inr (Response 200 (JDict [(''systolic'', JInt 145), (''diastolic'', JInt 95),
            (''category'', JStr ''Hypertension Stage 2''), (''success'', JBool True)]))"
    using legacy_test_inputs
      [of "[(''systolic'', JInt 145), (''diastolic'', JInt 95)]" "PInt 145" "PInt 95"] e(1)
    by simp
  from w1 w2 w3 w4 show ?thesis
    by blast
qed

section \<open>The answer of a successful prediction\<close>

text \<open>
  Claim C7. Whenever either branch passes its validation and leaves two finite numbers at
  line 43, the endpoint answers HTTP 200 with a body holding systolic and diastolic
  rounded to one decimal place, the category of the two (unrounded) values, and
  \<open>success: true\<close>.
\<close>

theorem predict_success_response:
  assumes "predict_values req = Values (JNum sv) (JNum dv)"
    and "exact sv = Fin s" and "exact dv = Fin d"
  shows "predict req =
           Inr (Response 200 (JDict [(''systolic'', JNum (py_round sv)),
                                     (''diastolic'', JNum (py_round dv)),
                                     (''category'', JStr (determine_bp_category sv dv)),
                                     (''success'', JBool True)]))
         \<and> (\<exists>rs rd. exact (py_round sv) = Fin rs \<and> exact (py_round dv) = Fin rd
                  \<and> rounded_to_1_decimal s rs \<and> rounded_to_1_decimal d rd)"
  using predict_of_values [OF assms(1)] py_round_rounded [OF assms(2)]
    py_round_rounded [OF assms(3)]
  by blast

theorem predict_success_response_witness:
  "predict_values (JDict [(''systolic'', JFloat (473/4)), (''diastolic'', JFloat (301/4))])
     = Values (JFloat (473/4)) (JFloat (301/4))
   \<and> predict (JDict [(''systolic'', JFloat (473/4)), (''diastolic'', JFloat (301/4))]) =
       Inr (Response 200 (JDict [(''systolic'', JFloat (591/5)),
                                 (''diastolic'', JFloat (376/5)),
                                 (''category'', JStr ''Normal''),
                                 (''success'', JBool True)]))
   \<and> rounded_to_1_decimal (473/4) (591/5) \<and> rounded_to_1_decimal (301/4) (376/5)
   \<and> predict_values (JDict [(''signal'', JList (replicate 100 (JInt 129)))])
     = Values (JFloat (8465359924572979/70368744177664))
              (JFloat (5643573283048653/70368744177664))
   \<and> predict (JDict [(''signal'', JList (replicate 100 (JInt 129)))]) =
       Inr (Response 200 (JDict [(''systolic'', JFloat (1203/10)),
                                 (''diastolic'', JFloat (401/5)),
                                 (''category'', JStr ''Hypertension Stage 1''),
                                 (''success'', JBool True)]))
   \<and> rounded_to_1_decimal (8465359924572979/70368744177664) (1203/10)
   \<and> rounded_to_1_decimal (5643573283048653/70368744177664) (401/5)"
proof -
  let ?leg = "JDict [(''systolic'', JFloat (473/4)), (''diastolic'', JFloat (301/4))]"
  let ?sig = "JDict [(''signal'', JList (replicate 100 (JInt 129)))]"
  have l: "predict_values ?leg = Values (JFloat (473/4)) (JFloat (301/4))"
    by (simp add: dict_contains_def dict_get_def)
  have rd: "round_double 129 = Fin 129" "round_double 1 = Fin 1"
    "round_double (5404319552844595 / 18014398509481984)
       = Fin (5404319552844595 / 18014398509481984)"
    "round_double (3602879701896397 / 18014398509481984)
       = Fin (3602879701896397 / 18014398509481984)"
    "round_double (120 + 5404319552844595 / 18014398509481984)
       = Fin (8465359924572979/70368744177664)"
    "round_double (80 + 3602879701896397 / 18014398509481984)
       = Fin (5643573283048653/70368744177664)"
    by (simp_all add: float_eval)
  have s: "py_sum (JList (replicate 100 (JInt 129))) = Inr (PInt 12900)"
    by (simp add: sum_items_replicate_int)
  have q: "py_truediv (PInt 12900) 100 = Inr (Fin 129)"
    by (simp add: rd)
  have fs: "fadd (Fin 120) (fmul (fsub (Fin 129) (Fin 128)) float_0_3)
              = Fin (8465359924572979/70368744177664)"
    and fd: "fadd (Fin 80) (fmul (fsub (Fin 129) (Fin 128)) float_0_2)
              = Fin (5643573283048653/70368744177664)"
    using rd by (simp_all add: fsub_def float_0_3_val float_0_2_val)
  have g: "predict_values ?sig = Values (JFloat (8465359924572979/70368744177664))
              (JFloat (5643573283048653/70368744177664))"
    using predict_values_mean [OF _ _ _ s q, of "[(''signal'', JList (replicate 100 (JInt 129)))]"]
    by (simp add: fs fd py_min_def py_max_def py_lt_def)
  have r: "py_round1 (473/4) = 591/5" "py_round1 (301/4) = 376/5"
    "py_round1 (8465359924572979/70368744177664) = 1203/10"
    "py_round1 (5643573283048653/70368744177664) = 401/5"
    by (simp_all add: py_round1_def Let_def floor_rat_numeral_div)
  have c: "determine_bp_category (PFloat (Fin (473/4))) (PFloat (Fin (301/4))) = ''Normal''"
    "determine_bp_category (PFloat (Fin (8465359924572979/70368744177664)))
       (PFloat (Fin (5643573283048653/70368744177664))) = ''Hypertension Stage 1''"
    by (simp_all add: determine_bp_category_def py_lt_def py_le_def py_ge_def)
  have e: "exact (PFloat (Fin x)) = Fin x" for x
    by simp
  have u: "rounded_to_1_decimal x (py_round1 x') \<and> rounded_to_1_decimal y (py_round1 y')"
    if "\<exists>rs rd. exact (py_round (PFloat (Fin x'))) = Fin rs
                \<and> exact (py_round (PFloat (Fin y'))) = Fin rd
                \<and> rounded_to_1_decimal x rs \<and> rounded_to_1_decimal y rd" for x y x' y'
    using that by auto
  have p1: "predict ?leg =
       Inr (Response 200 (JDict [(''systolic'', JFloat (591/5)),
                                 (''diastolic'', JFloat (376/5)),
                                 (''category'', JStr ''Normal''),
                                 (''success'', JBool True)]))
       \<and> rounded_to_1_decimal (473/4) (591/5) \<and> rounded_to_1_decimal (301/4) (376/5)"
    using conjunct1 [OF predict_success_response [OF l e e]]
      u [OF conjunct2 [OF predict_success_response [OF l e e]]]
    unfolding py_round.simps r c by blast
  have p2: "predict ?sig =
       Inr (Response 200 (JDict [(''systolic'', JFloat (1203/10)),
                                 (''diastolic'', JFloat (401/5)),
                                 (''category'', JStr ''Hypertension Stage 1''),
                                 (''success'', JBool True)]))
       \<and> rounded_to_1_decimal (8465359924572979/70368744177664) (1203/10)
       \<and> rounded_to_1_decimal (5643573283048653/70368744177664) (401/5)"
    using conjunct1 [OF predict_success_response [OF g e e]]
      u [OF conjunct2 [OF predict_success_response [OF g e e]]]
    unfolding py_round.simps r c by blast
  from l g p1 p2 show ?thesis
    by blast
qed

text \<open>
  Claim C10. Two requests whose bodies agree on every field other than \<open>emotion\<close>
  (which either may lack) get the same answer from the prediction endpoint.
\<close>

theorem emotion_ignored:
  assumes "map_of d1 |` (- {''emotion''}) = map_of d2 |` (- {''emotion''})"
  shows "predict (JDict d1) = predict (JDict d2)"
proof -
  have same: "map_of d1 k = map_of d2 k" if "k \<noteq> ''emotion''" for k
  proof -
    from that have "k \<in> - {''emotion''}"
      by simp
    then have "map_of d1 k = (map_of d1 |` (- {''emotion''})) k"
      and "map_of d2 k = (map_of d2 |` (- {''emotion''})) k"
      by (simp_all only: restrict_in)
    with assms show ?thesis
      by simp
  qed
  have "map_of d1 ''signal'' = map_of d2 ''signal''"
    and "map_of d1 ''systolic'' = map_of d2 ''systolic''"
    and "map_of d1 ''diastolic'' = map_of d2 ''diastolic''"
    by (simp_all add: same)
  then have "predict_values (JDict d1) = predict_values (JDict d2)"
    by (simp add: dict_contains_def dict_get_def)
  then show ?thesis
    by (simp add: predict_def)
qed

theorem emotion_ignored_witness:
  "map_of [(''signal'', JList (map JInt (replicate 100 130))), (''emotion'', JStr ''happy'')]
       |` (- {''emotion''})
     = map_of [(''signal'', JList (map JInt (replicate 100 130)))] |` (- {''emotion''})
   \<and> predict (JDict [(''signal'', JList (map JInt (replicate 100 130))),
                      (''emotion'', JStr ''happy'')])
     = predict (JDict [(''signal'', JList (map JInt (replicate 100 130)))])"
proof -
  have h: "map_of [(''signal'', JList (map JInt (replicate 100 130))), (''emotion'', JStr ''happy'')]
       |` (- {''emotion''})
     = map_of [(''signal'', JList (map JInt (replicate 100 130)))] |` (- {''emotion''})"
    by (rule ext) (simp add: restrict_map_def)
  from h emotion_ignored [OF h] show ?thesis
    by blast
qed

section \<open>The export endpoint: who gets an answer\<close>

text \<open>
  Claim C8, as the code has it. For a body that is a JSON object whose \<open>samples\<close> field
  is absent or holds a value with a length (a list, a string or an object), the export
  endpoint prints the sample count and answers HTTP 200 with
  \<open>{success: true, message: "Session data exported successfully"}\<close>; an absent field
  counts as zero samples.
\<close>

theorem export_session_sized_samples:
  assumes "map_of data ''samples'' = None \<and> n = 0
           \<or> (\<exists>v. map_of data ''samples'' = Some v \<and> py_len v = Inr n)"
  shows "export_session (JDict data) =
           Inr (''Session exported: '' @ str_nat n @ '' samples'',
                Response 200 (JDict [(''success'', JBool True),
                                     (''message'', JStr ''Session data exported successfully'')]))"
  using assms by (auto simp: dict_get_def jsonify_def)

theorem export_session_sized_samples_witness:
  "(map_of [(''user'', JStr ''u1'')] ''samples'' = None \<and> (0::nat) = 0
    \<or> (\<exists>v. map_of [(''user'', JStr ''u1'')] ''samples'' = Some v \<and> py_len v = Inr 0))
   \<and> export_session (JDict [(''user'', JStr ''u1'')]) =
       Inr (''Session exported: 0 samples'',
            Response 200 (JDict [(''success'', JBool True),
                                 (''message'', JStr ''Session data exported successfully'')]))
   \<and> (map_of [(''samples'', JList [JNull, JStr ''x'', JInt 3])] ''samples'' = None \<and> (3::nat) = 0
    \<or> (\<exists>v. map_of [(''samples'', JList [JNull, JStr ''x'', JInt 3])] ''samples'' = Some v
            \<and> py_len v = Inr 3))
   \<and> export_session (JDict [(''samples'', JList [JNull, JStr ''x'', JInt 3])]) =
       Inr (''Session exported: 3 samples'',
            Response 200 (JDict [(''success'', JBool True),
                                 (''message'', JStr ''Session data exported successfully'')]))"
proof -
  have h0: "map_of [(''user'', JStr ''u1'')] ''samples'' = None \<and> (0::nat) = 0
    \<or> (\<exists>v. map_of [(''user'', JStr ''u1'')] ''samples'' = Some v \<and> py_len v = Inr 0)"
    by simp
  have h3: "map_of [(''samples'', JList [JNull, JStr ''x'', JInt 3])] ''samples'' = None \<and> (3::nat) = 0
    \<or> (\<exists>v. map_of [(''samples'', JList [JNull, JStr ''x'', JInt 3])] ''samples'' = Some v
            \<and> py_len v = Inr 3)"
    by simp
  have s: "str_nat 0 = ''0''" "str_nat 3 = ''3''"
    by (simp_all add: str_nat.simps)
  from h0 h3 export_session_sized_samples [OF h0] export_session_sized_samples [OF h3]
  show ?thesis
    unfolding s by simp
qed

text \<open>
  A \<open>samples\<close> field that holds a number has no length: \<^verbatim>\<open>len\<close> raises
  \<^verbatim>\<open>TypeError\<close> and no answer is built.
\<close>

theorem export_session_number_samples:
  "export_session (JDict [(''samples'', JInt 5)]) = Inl TypeError"
  by (simp add: dict_get_def)

end
